theory Spec2Isabelle
  imports Main
begin

section \<open>RAGForge: the ChromaDB manager and the chunkers\<close>

text \<open>
  The repository has three Python files. \<^verbatim>\<open>src/database/chroma_client.py\<close> holds the class
  \<^verbatim>\<open>ChromaDBManager\<close>, a thin layer over the \<^verbatim>\<open>chromadb\<close> library;
  \<^verbatim>\<open>src/chunking/chunking.py\<close> holds the chunker classes; \<^verbatim>\<open>src/agent/agent.py\<close> holds the
  agent, which no statement below is about.

  The constructor of \<^verbatim>\<open>ChromaDBManager\<close> and its methods \<^verbatim>\<open>add_chunks\<close>,
  \<^verbatim>\<open>delete_chunks\<close>, \<^verbatim>\<open>count_chunks\<close>, \<^verbatim>\<open>reset_collection\<close>, \<^verbatim>\<open>switch_collection\<close> and
  \<^verbatim>\<open>update_chunk_metadata\<close> are embedded one by one, under their own names, as functions
  that take the manager and return either an error (the exception raised) or the result of
  the call, which for a method that returns nothing is the manager after the call. The
  methods \<^verbatim>\<open>query_similar\<close>, \<^verbatim>\<open>get_chunks_by_ids\<close> and \<^verbatim>\<open>list_collections\<close> hand back what
  the library computes (for a query, a ranking by floating-point distance); they are not
  embedded.

  The library the methods call is not part of the repository. It is modelled as a keyed
  store: a database maps collection names to collections, a collection is the list of its
  records in insertion order, and every library call made with keywords first binds the
  keywords against the parameter names of the method called, as every Python call does.
  The library checks the values it is given before it touches the store: an empty list of
  ids, an empty metadata dictionary and lists of different lengths raise \<^verbatim>\<open>ValueError\<close>, a
  repeated id raises \<^verbatim>\<open>DuplicateIDError\<close>, and a collection name outside the library's
  syntax raises \<^verbatim>\<open>InvalidArgumentError\<close>. The syntax of names is the library's business
  and differs between its versions, so the functions take it as a parameter \<open>valid\<close>.
  Failures of the machine (permissions, a file where a directory is expected, a broken
  database file) are not modelled.
\<close>

subsection \<open>Errors\<close>

text \<open>
  The exceptions of the model. The first seven are raised by Python or by the library. The
  last three are the error kinds the specification names; no line of the source raises
  them, and they are here so that statements can say so.
\<close>

datatype error =
    TypeError
  | ValueError
  | FileExistsError
  | FileNotFoundError
  | CollectionDoesNotExist
  | DuplicateIDError
  | InvalidArgumentError
  | NotFoundError
  | CapabilityError
  | ChunkingError

subsection \<open>Formatting a number inside an f-string\<close>

definition digit :: "nat \<Rightarrow> char" where
  "digit d = ''0123456789'' ! d"

function format_int :: "nat \<Rightarrow> string" where
  "format_int n = (if n < 10 then [digit n] else format_int (n div 10) @ [digit (n mod 10)])"
  by pat_completeness auto
termination
  by (relation "measure id") auto

declare format_int.simps [simp del]

subsection \<open>Python calls with keywords\<close>

text \<open>
  A call \<^verbatim>\<open>f(k1=v1, ..., kn=vn)\<close> raises \<^verbatim>\<open>TypeError\<close> when one of the keywords is not a
  parameter of \<^verbatim>\<open>f\<close> (and \<^verbatim>\<open>f\<close> takes no \<^verbatim>\<open>**kwargs\<close>), or when a parameter without a
  default gets no value. Otherwise the body runs with the bound values.
\<close>

definition bind_arguments ::
  "string list \<Rightarrow> string list \<Rightarrow> (string \<times> 'v) list \<Rightarrow> error + (string \<rightharpoonup> 'v)" where
  "bind_arguments params required kwargs =
     (if list_ex (\<lambda>k. k \<notin> set params) (map fst kwargs) then Inl TypeError
      else if list_ex (\<lambda>p. p \<notin> set (map fst kwargs)) required then Inl TypeError
      else Inr (map_of kwargs))"

text \<open>The values the manager passes to the library.\<close>

datatype ('e, 'v) arg =
    NoneArg
  | Str string
  | StrList "string list"
  | EmbList "'e list"
  | MetaList "(string \<times> 'v) list list"
  | Dict "(string \<times> string) list"
  | PathArg "string list"
  | Settings "(string \<times> bool) list"

subsection \<open>The library: records, collections, databases\<close>

text \<open>
  A record of a collection: its id, the chunk text, the embedding and the optional metadata.
  A metadata dictionary is the list of its keys and values. The manager never looks inside
  an embedding or a metadata value, so both are type parameters.
\<close>

record ('e, 'v) entry =
  entry_id :: string
  document :: string
  embedding :: 'e
  metadata :: "(string \<times> 'v) list option"

type_synonym ('e, 'v) database = "string \<rightharpoonup> ('e, 'v) entry list"

text \<open>The parameter names of the library's methods, as its interface declares them.\<close>

definition add_params :: "string list" where
  "add_params = [''ids'', ''embeddings'', ''metadatas'', ''documents'', ''images'', ''uris'']"

definition update_params :: "string list" where
  "update_params = [''ids'', ''embeddings'', ''metadatas'', ''documents'', ''images'', ''uris'']"

definition delete_params :: "string list" where
  "delete_params = [''ids'', ''where'', ''where_document'']"

definition get_or_create_params :: "string list" where
  "get_or_create_params =
     [''name'', ''configuration'', ''metadata'', ''embedding_function'', ''data_loader'']"

definition client_params :: "string list" where
  "client_params = [''path'', ''settings'', ''tenant'', ''database'']"

text \<open>
  \<^verbatim>\<open>Collection.count()\<close>. A handle is the name of its collection; a handle whose collection
  has been deleted raises.
\<close>

definition Collection_count :: "('e, 'v) database \<Rightarrow> string \<Rightarrow> error + nat" where
  "Collection_count db h =
     (case db h of None \<Rightarrow> Inl CollectionDoesNotExist | Some c \<Rightarrow> Inr (length c))"

text \<open>
  The check of a list of ids, made by every call that takes one: the list is not empty and
  no id is repeated.
\<close>

definition validate_ids :: "string list \<Rightarrow> error option" where
  "validate_ids ids =
     (if ids = [] then Some ValueError
      else if \<not> distinct ids then Some DuplicateIDError
      else None)"

text \<open>
  \<^verbatim>\<open>Collection.add(ids, embeddings=None, metadatas=None, documents=None, ...)\<close>. Ids are
  unique in a collection: a call with a repeated id raises and stores nothing; a record whose
  id is already stored is skipped, the others are appended in order.
\<close>

definition insert_entry :: "('e, 'v) entry \<Rightarrow> ('e, 'v) entry list \<Rightarrow> ('e, 'v) entry list" where
  "insert_entry e c = (if entry_id e \<in> set (map entry_id c) then c else c @ [e])"

definition make_entries ::
  "string list \<Rightarrow> string list \<Rightarrow> 'e list \<Rightarrow> (string \<times> 'v) list option list
     \<Rightarrow> ('e, 'v) entry list" where
  "make_entries ids docs embs metas =
     map (\<lambda>(i, d, e, md). \<lparr>entry_id = i, document = d, embedding = e, metadata = md\<rparr>)
       (zip ids (zip docs (zip embs metas)))"

definition add_records ::
  "('e, 'v) entry list \<Rightarrow> (string \<rightharpoonup> ('e, 'v) arg) \<Rightarrow> error + ('e, 'v) entry list" where
  "add_records c args =
     (case (args ''ids'', args ''documents'', args ''embeddings'') of
        (Some (StrList ids), Some (StrList docs), Some (EmbList embs)) \<Rightarrow>
          (let metas = (case args ''metadatas'' of
                          Some (MetaList ms) \<Rightarrow> map Some ms
                        | _ \<Rightarrow> replicate (length ids) None)
           in case validate_ids ids of
                Some e \<Rightarrow> Inl e
              | None \<Rightarrow>
                  if length docs = length ids \<and> length embs = length ids
                     \<and> length metas = length ids
                  then Inr (fold insert_entry (make_entries ids docs embs metas) c)
                  else Inl ValueError)
      | _ \<Rightarrow> Inl ValueError)"

definition Collection_add ::
  "('e, 'v) database \<Rightarrow> string \<Rightarrow> (string \<times> ('e, 'v) arg) list \<Rightarrow> error + ('e, 'v) database" where
  "Collection_add db h kwargs =
     (case bind_arguments add_params [''ids''] kwargs of
        Inl e \<Rightarrow> Inl e
      | Inr args \<Rightarrow>
          (case db h of
             None \<Rightarrow> Inl CollectionDoesNotExist
           | Some c \<Rightarrow>
               (case add_records c args of
                  Inl e \<Rightarrow> Inl e
                | Inr c' \<Rightarrow> Inr (db(h \<mapsto> c')))))"

text \<open>
  \<^verbatim>\<open>Collection.delete(ids=None, where=None, where_document=None)\<close>: the list of ids is
  checked; then the records whose id is listed are removed, and an id that is not stored is
  skipped (the library logs a warning and goes on).
\<close>

definition Collection_delete ::
  "('e, 'v) database \<Rightarrow> string \<Rightarrow> (string \<times> ('e, 'v) arg) list \<Rightarrow> error + ('e, 'v) database" where
  "Collection_delete db h kwargs =
     (case bind_arguments delete_params [] kwargs of
        Inl e \<Rightarrow> Inl e
      | Inr args \<Rightarrow>
          (case args ''ids'' of
             Some (StrList ids) \<Rightarrow>
               (case validate_ids ids of
                  Some e \<Rightarrow> Inl e
                | None \<Rightarrow>
                    (case db h of
                       None \<Rightarrow> Inl CollectionDoesNotExist
                     | Some c \<Rightarrow> Inr (db(h \<mapsto> filter (\<lambda>e. entry_id e \<notin> set ids) c))))
           | _ \<Rightarrow> Inl ValueError))"

text \<open>
  \<^verbatim>\<open>Collection.update(ids, embeddings=None, metadatas=None, documents=None, ...)\<close>: the
  list of ids is checked, no metadata dictionary may be empty, and there is one dictionary
  for every id. Then the pairs of an id and its dictionary are applied in order: the keys
  of the dictionary are merged into the metadata of the record with that id (a given key
  replaces the stored one, the other stored keys stay), and an id that is not stored is
  skipped (the library logs a warning and goes on).
\<close>

definition merge_metadata ::
  "(string \<times> 'v) list option \<Rightarrow> (string \<times> 'v) list \<Rightarrow> (string \<times> 'v) list option" where
  "merge_metadata stored given =
     (case stored of
        None \<Rightarrow> Some given
      | Some old \<Rightarrow> Some (filter (\<lambda>kv. fst kv \<notin> set (map fst given)) old @ given))"

definition set_metadata ::
  "string \<times> (string \<times> 'v) list \<Rightarrow> ('e, 'v) entry list \<Rightarrow> ('e, 'v) entry list" where
  "set_metadata p c =
     map (\<lambda>e. if entry_id e = fst p
              then e\<lparr>metadata := merge_metadata (metadata e) (snd p)\<rparr> else e) c"

definition Collection_update ::
  "('e, 'v) database \<Rightarrow> string \<Rightarrow> (string \<times> ('e, 'v) arg) list \<Rightarrow> error + ('e, 'v) database" where
  "Collection_update db h kwargs =
     (case bind_arguments update_params [''ids''] kwargs of
        Inl e \<Rightarrow> Inl e
      | Inr args \<Rightarrow>
          (case (args ''ids'', args ''metadatas'') of
             (Some (StrList ids), Some (MetaList metas)) \<Rightarrow>
               (case validate_ids ids of
                  Some e \<Rightarrow> Inl e
                | None \<Rightarrow>
                    if list_ex (\<lambda>d. d = []) metas \<or> length metas \<noteq> length ids
                    then Inl ValueError
                    else (case db h of
                            None \<Rightarrow> Inl CollectionDoesNotExist
                          | Some c \<Rightarrow> Inr (db(h \<mapsto> fold set_metadata (zip ids metas) c))))
           | _ \<Rightarrow> Inl ValueError))"

text \<open>
  \<^verbatim>\<open>client.get_or_create_collection(name, ..., metadata=None, ...)\<close> checks the name
  against the library's syntax of names, the parameter \<open>valid\<close>, and raises
  \<^verbatim>\<open>InvalidArgumentError\<close> when the name is outside it. Otherwise it returns the database
  after the call and the handle: a collection of that name is reused as it is, a missing one
  is created empty. \<^verbatim>\<open>client.delete_collection(name)\<close> removes the collection and raises
  when there is none of that name.
\<close>

definition get_or_create_collection ::
  "(string \<Rightarrow> bool) \<Rightarrow> ('e, 'v) database \<Rightarrow> (string \<times> ('e, 'v) arg) list
     \<Rightarrow> error + (('e, 'v) database \<times> string)" where
  "get_or_create_collection valid db kwargs =
     (case bind_arguments get_or_create_params [''name''] kwargs of
        Inl e \<Rightarrow> Inl e
      | Inr args \<Rightarrow>
          (case args ''name'' of
             Some (Str name) \<Rightarrow>
               (if \<not> valid name then Inl InvalidArgumentError
                else (case db name of
                        Some c \<Rightarrow> Inr (db, name)
                      | None \<Rightarrow> Inr (db(name \<mapsto> []), name)))
           | _ \<Rightarrow> Inl ValueError))"

text \<open>
  The syntax of names the library documents: 3 to 512 characters from \<^verbatim>\<open>[a-zA-Z0-9._-]\<close>,
  the first and the last of them a letter or a digit. The statements below hold for every
  \<open>valid\<close>; this one is used where a statement is tried on concrete names.
\<close>

definition alphanumeric :: string where
  "alphanumeric = ''abcdefghijklmnopqrstuvwxyzABCDEFGHIJKLMNOPQRSTUVWXYZ0123456789''"

definition name_syntax :: "string \<Rightarrow> bool" where
  "name_syntax name =
     (3 \<le> length name \<and> length name \<le> 512
      \<and> list_all (\<lambda>c. c \<in> set (alphanumeric @ ''._-'')) name
      \<and> hd name \<in> set alphanumeric \<and> last name \<in> set alphanumeric)"

definition delete_collection :: "('e, 'v) database \<Rightarrow> string \<Rightarrow> error + ('e, 'v) database" where
  "delete_collection db name =
     (case db name of
        None \<Rightarrow> Inl CollectionDoesNotExist
      | Some c \<Rightarrow> Inr (db(name := None)))"

subsection \<open>The manager\<close>

text \<open>
  The fields of \<^verbatim>\<open>ChromaDBManager\<close>. The client is the database it has open; the field
  \<^verbatim>\<open>collection\<close> is the handle that \<^verbatim>\<open>get_or_create_collection\<close> returned.
\<close>

record ('e, 'v) manager =
  persist_directory :: "string list"
  collection_name :: string
  client :: "('e, 'v) database"
  collection :: string

definition collection_kwargs :: "string \<Rightarrow> (string \<times> ('e, 'v) arg) list" where
  "collection_kwargs name =
     [(''name'', Str name),
      (''metadata'', Dict [(''description'', ''Storage for document chunks and embeddings'')])]"

definition count_chunks :: "('e, 'v) manager \<Rightarrow> error + nat" where
  "count_chunks m = Collection_count (client m) (collection m)"

definition add_chunks ::
  "('e, 'v) manager \<Rightarrow> string list \<Rightarrow> 'e list \<Rightarrow> (string \<times> 'v) list list option
     \<Rightarrow> string list option \<Rightarrow> error + ('e, 'v) manager" where
  "add_chunks m chunks embeddings metadatas ids =
     (case (case ids of
              None \<Rightarrow>
                (case Collection_count (client m) (collection m) of
                   Inl e \<Rightarrow> Inl e
                 | Inr start_id \<Rightarrow>
                     Inr (map (\<lambda>i. ''chunk_'' @ format_int (start_id + i)) [0..<length chunks]))
            | Some given \<Rightarrow> Inr given) of
        Inl e \<Rightarrow> Inl e
      | Inr ids' \<Rightarrow>
          (case Collection_add (client m) (collection m)
                  [(''ndocuments'', StrList chunks),
                   (''nembeddings'', EmbList embeddings),
                   (''nmetadatas'', (case metadatas of None \<Rightarrow> NoneArg | Some ms \<Rightarrow> MetaList ms)),
                   (''nids'', StrList ids')] of
             Inl e \<Rightarrow> Inl e
           | Inr db \<Rightarrow> Inr (m\<lparr>client := db\<rparr>)))"

definition delete_chunks :: "('e, 'v) manager \<Rightarrow> string list \<Rightarrow> error + ('e, 'v) manager" where
  "delete_chunks m ids =
     (case Collection_delete (client m) (collection m) [(''ids'', StrList ids)] of
        Inl e \<Rightarrow> Inl e
      | Inr db \<Rightarrow> Inr (m\<lparr>client := db\<rparr>))"

definition update_chunk_metadata ::
  "('e, 'v) manager \<Rightarrow> string list \<Rightarrow> (string \<times> 'v) list list \<Rightarrow> error + ('e, 'v) manager" where
  "update_chunk_metadata m ids metadatas =
     (case Collection_update (client m) (collection m)
             [(''ids'', StrList ids), (''metadatas'', MetaList metadatas)] of
        Inl e \<Rightarrow> Inl e
      | Inr db \<Rightarrow> Inr (m\<lparr>client := db\<rparr>))"

text \<open>
  \<^verbatim>\<open>reset_collection\<close> and \<^verbatim>\<open>switch_collection\<close> change the manager before their last
  library call, so a raise of that call leaves a changed manager behind: they return
  \<open>Inl (e, m')\<close> for the error \<open>e\<close> raised with the manager \<open>m'\<close> left, and \<open>Inr m'\<close> for a
  return. In \<^verbatim>\<open>reset_collection\<close> the collection is already deleted when
  \<^verbatim>\<open>get_or_create_collection\<close> runs; in \<^verbatim>\<open>switch_collection\<close> the field
  \<^verbatim>\<open>collection_name\<close> is already assigned.
\<close>

definition reset_collection ::
  "(string \<Rightarrow> bool) \<Rightarrow> ('e, 'v) manager \<Rightarrow> (error \<times> ('e, 'v) manager) + ('e, 'v) manager" where
  "reset_collection valid m =
     (case delete_collection (client m) (collection_name m) of
        Inl e \<Rightarrow> Inl (e, m)
      | Inr db \<Rightarrow>
          (case get_or_create_collection valid db (collection_kwargs (collection_name m)) of
             Inl e \<Rightarrow> Inl (e, m\<lparr>client := db\<rparr>)
           | Inr (db', h) \<Rightarrow> Inr (m\<lparr>client := db', collection := h\<rparr>)))"

definition switch_collection ::
  "(string \<Rightarrow> bool) \<Rightarrow> ('e, 'v) manager \<Rightarrow> string
     \<Rightarrow> (error \<times> ('e, 'v) manager) + ('e, 'v) manager" where
  "switch_collection valid m name =
     (case get_or_create_collection valid (client m) (collection_kwargs name) of
        Inl e \<Rightarrow> Inl (e, m\<lparr>collection_name := name\<rparr>)
      | Inr (db, h) \<Rightarrow> Inr (m\<lparr>collection_name := name, client := db, collection := h\<rparr>))"


text \<open>
  What every manager built by the constructor satisfies, and every method that returns
  keeps: the handle is the handle of the collection named in \<^verbatim>\<open>collection_name\<close>, and
  that collection is in the database.
\<close>

definition attached :: "('e, 'v) manager \<Rightarrow> bool" where
  "attached m = (collection m = collection_name m \<and> client m (collection m) \<noteq> None)"

text \<open>The records of the collection the manager points at.\<close>

definition current :: "('e, 'v) manager \<Rightarrow> ('e, 'v) entry list" where
  "current m = (case client m (collection m) of None \<Rightarrow> [] | Some c \<Rightarrow> c)"

subsection \<open>The constructor and the persistence directory\<close>

text \<open>
  A path is the list of its components; the empty path is the directory the process runs
  in. The file system is the set of the directories that exist. \<^verbatim>\<open>os.mkdir\<close> creates one
  directory and raises when it exists already or when its parent is missing.
\<close>

definition is_dir :: "string list set \<Rightarrow> string list \<Rightarrow> bool" where
  "is_dir ds p = (p = [] \<or> p \<in> ds)"

definition os_mkdir :: "string list set \<Rightarrow> string list \<Rightarrow> error + string list set" where
  "os_mkdir ds p =
     (if is_dir ds p then Inl FileExistsError
      else if \<not> is_dir ds (butlast p) then Inl FileNotFoundError
      else Inr (insert p ds))"

text \<open>
  \<^verbatim>\<open>Path.mkdir(parents, exist_ok)\<close> as the standard library writes it: try \<^verbatim>\<open>os.mkdir\<close>;
  on \<^verbatim>\<open>FileNotFoundError\<close> with \<^verbatim>\<open>parents\<close> set, make the parent (with
  \<^verbatim>\<open>parents=True, exist_ok=True\<close>) and try once more without \<^verbatim>\<open>parents\<close>; on any other
  error, raise unless \<^verbatim>\<open>exist_ok\<close> is set and the path is a directory.
\<close>

function Path_mkdir ::
  "string list set \<Rightarrow> string list \<Rightarrow> bool \<Rightarrow> bool \<Rightarrow> error + string list set" where
  "Path_mkdir ds p parents exist_ok =
     (case os_mkdir ds p of
        Inr ds' \<Rightarrow> Inr ds'
      | Inl e \<Rightarrow>
          if e = FileNotFoundError then
            (if \<not> parents \<or> butlast p = p then Inl e
             else (case Path_mkdir ds (butlast p) True True of
                     Inl e' \<Rightarrow> Inl e'
                   | Inr ds1 \<Rightarrow> Path_mkdir ds1 p False exist_ok))
          else if \<not> exist_ok \<or> \<not> is_dir ds p then Inl e
          else Inr ds)"
  by pat_completeness auto
termination
proof (relation "measure (\<lambda>(ds, p, parents, exist_ok). 2 * length p + (if parents then 1 else 0))")
  show "wf (measure (\<lambda>(ds, p, parents, exist_ok). 2 * length p + (if parents then 1 else 0)))"
    by simp
next
  fix ds :: "string list set" and p :: "string list" and parents exist_ok :: bool and e :: error
  assume "\<not> (\<not> parents \<or> butlast p = p)"
  then have "p \<noteq> []" by auto
  then show "((ds, butlast p, True, True), ds, p, parents, exist_ok)
       \<in> measure (\<lambda>(ds, p, parents, exist_ok). 2 * length p + (if parents then 1 else 0))"
    by (cases p rule: rev_cases) auto
next
  fix ds ds1 :: "string list set" and p :: "string list" and parents exist_ok :: bool and e :: error
  assume "\<not> (\<not> parents \<or> butlast p = p)"
  then show "((ds1, p, False, exist_ok), ds, p, parents, exist_ok)
       \<in> measure (\<lambda>(ds, p, parents, exist_ok). 2 * length p + (if parents then 1 else 0))"
    by auto
qed

declare Path_mkdir.simps [simp del]

text \<open>A file system in which the parent of every directory is a directory.\<close>

definition parents_exist :: "string list set \<Rightarrow> bool" where
  "parents_exist ds = (\<forall>q \<in> ds. is_dir ds (butlast q))"

text \<open>
  \<^verbatim>\<open>chromadb.PersistentClient(path=..., settings=...)\<close> opens the database stored under
  the path; \<open>stored\<close> gives, for every path, the database found there (the empty one where
  nothing was stored yet).
\<close>

definition PersistentClient ::
  "(string list \<Rightarrow> ('e, 'v) database) \<Rightarrow> (string \<times> ('e, 'v) arg) list \<Rightarrow> error + ('e, 'v) database" where
  "PersistentClient stored kwargs =
     (case bind_arguments client_params [] kwargs of
        Inl e \<Rightarrow> Inl e
      | Inr args \<Rightarrow>
          (case args ''path'' of
             Some (PathArg p) \<Rightarrow> Inr (stored p)
           | _ \<Rightarrow> Inr (stored [''chroma''])))"

text \<open>
  \<^verbatim>\<open>ChromaDBManager.__init__\<close>: it takes the directories that exist and the stored
  databases, and returns the directories after the call together with the manager or the
  error raised. The directory is made first, so it stays when a later call raises.
\<close>

definition init ::
  "(string \<Rightarrow> bool) \<Rightarrow> string list set \<Rightarrow> (string list \<Rightarrow> ('e, 'v) database) \<Rightarrow> string list
     \<Rightarrow> string \<Rightarrow> string list set \<times> (error + ('e, 'v) manager)" where
  "init valid ds stored persist_dir name =
     (case Path_mkdir ds persist_dir True True of
        Inl e \<Rightarrow> (ds, Inl e)
      | Inr ds' \<Rightarrow>
          (ds',
           case PersistentClient stored
                  [(''path'', PathArg persist_dir),
                   (''settings'', Settings [(''anonymized_telemetry'', False), (''allow_reset'', True)])] of
             Inl e \<Rightarrow> Inl e
           | Inr db \<Rightarrow>
               (case get_or_create_collection valid db (collection_kwargs name) of
                  Inl e \<Rightarrow> Inl e
                | Inr (db', h) \<Rightarrow>
                    Inr \<lparr>persist_directory = persist_dir, collection_name = name,
                         client = db', collection = h\<rparr>)))"

subsection \<open>Sequences of calls\<close>

text \<open>
  A caller's sequence of \<^verbatim>\<open>add_chunks\<close> (without ids) and \<^verbatim>\<open>delete_chunks\<close> calls. Both
  methods assign no field, and the library checks its arguments before it stores, so a call
  that raises leaves the manager as it was; the caller goes on with the next call.
\<close>

datatype ('e, 'v) operation =
    Add "string list" "'e list" "(string \<times> 'v) list list option"
  | Delete "string list"

definition apply_operation ::
  "('e, 'v) manager \<Rightarrow> ('e, 'v) operation \<Rightarrow> error + ('e, 'v) manager" where
  "apply_operation m operation =
     (case operation of
        Add chunks embeddings metadatas \<Rightarrow> add_chunks m chunks embeddings metadatas None
      | Delete ids \<Rightarrow> delete_chunks m ids)"

fun run_operations :: "('e, 'v) manager \<Rightarrow> ('e, 'v) operation list \<Rightarrow> ('e, 'v) manager" where
  "run_operations m [] = m"
| "run_operations m (operation # rest) =
     (case apply_operation m operation of
        Inl e \<Rightarrow> run_operations m rest
      | Inr m' \<Rightarrow> run_operations m' rest)"

subsection \<open>The chunkers\<close>

text \<open>
  Modelled from the spec: the capability of an embedder that late chunking needs (per-unit
  vectors). The source has no such notion; a loaded model is given the flag so that
  statements can speak about it.
\<close>

record embedder =
  model_name :: string
  token_vectors :: bool

text \<open>
  The three classes of \<^verbatim>\<open>chunking.py\<close>. The constructor of \<^verbatim>\<open>BaseChunker\<close> loads the
  sentence-transformer model of the given name and keeps it; the two subclasses call it and
  do nothing else. Loading is the library's work: \<open>SentenceTransformer\<close> is a parameter that
  returns the model or the error raised.
\<close>

datatype chunker_class = BaseChunker | ContextAwareChunking | LateChunking

record chunker =
  chunker_class :: chunker_class
  model :: embedder

definition BaseChunker_init ::
  "(string \<Rightarrow> error + embedder) \<Rightarrow> chunker_class \<Rightarrow> string \<Rightarrow> error + chunker" where
  "BaseChunker_init SentenceTransformer cls name =
     (case SentenceTransformer name of
        Inl e \<Rightarrow> Inl e
      | Inr mdl \<Rightarrow> Inr \<lparr>chunker_class = cls, model = mdl\<rparr>)"

definition ContextAwareChunking_init ::
  "(string \<Rightarrow> error + embedder) \<Rightarrow> string \<Rightarrow> error + chunker" where
  "ContextAwareChunking_init SentenceTransformer name =
     BaseChunker_init SentenceTransformer ContextAwareChunking name"

definition LateChunking_init ::
  "(string \<Rightarrow> error + embedder) \<Rightarrow> string \<Rightarrow> error + chunker" where
  "LateChunking_init SentenceTransformer name =
     BaseChunker_init SentenceTransformer LateChunking name"

text \<open>
  \<^verbatim>\<open>cunk_document(self)\<close> has the body \<^verbatim>\<open>pass\<close>: it takes no argument besides the chunker
  and returns \<^verbatim>\<open>None\<close>. The second argument of the model is the list of the positional
  arguments of the call; Python raises \<^verbatim>\<open>TypeError\<close> when there is one. A value a chunking
  method can return is \<^verbatim>\<open>None\<close> or a sequence of chunks.
\<close>

datatype 'c returned = NoneValue | Sequence "'c list"

definition cunk_document :: "chunker \<Rightarrow> string list \<Rightarrow> error + 'c returned" where
  "cunk_document self args = (if args = [] then Inr NoneValue else Inl TypeError)"

text \<open>
  A loader for the statements below: it loads a model of any name, and the model exposes no
  per-unit vectors.
\<close>

definition pooled_only :: "string \<Rightarrow> error + embedder" where
  "pooled_only name = Inr \<lparr>model_name = name, token_vectors = False\<rparr>"

subsection \<open>Lemmas on id generation and keyword binding\<close>

lemma format_int_examples:
  "format_int 0 = ''0''" "format_int 7 = ''7''" "format_int 12 = ''12''" "format_int 305 = ''305''"
  by (simp_all add: format_int.simps digit_def)

lemma generated_ids_example:
  "map (\<lambda>i. ''chunk_'' @ format_int (9 + i)) [0..<3] = [''chunk_9'', ''chunk_10'', ''chunk_11'']"
  by (simp add: format_int.simps digit_def upt_rec)

lemma bind_add_misspelt:
  "bind_arguments add_params [''ids'']
     [(''ndocuments'', a), (''nembeddings'', b), (''nmetadatas'', c), (''nids'', d)] = Inl TypeError"
  by (simp add: bind_arguments_def add_params_def)

lemma bind_delete_ids:
  "bind_arguments delete_params [] [(''ids'', a)] = Inr (map_of [(''ids'', a)])"
  by (simp add: bind_arguments_def delete_params_def)

lemma bind_update_ids_metadatas:
  "bind_arguments update_params [''ids''] [(''ids'', a), (''metadatas'', b)]
     = Inr (map_of [(''ids'', a), (''metadatas'', b)])"
  by (simp add: bind_arguments_def update_params_def)

lemma bind_get_or_create:
  "bind_arguments get_or_create_params [''name''] [(''name'', a), (''metadata'', b)]
     = Inr (map_of [(''name'', a), (''metadata'', b)])"
  by (simp add: bind_arguments_def get_or_create_params_def)

lemma Collection_add_misspelt:
  "Collection_add db h
     [(''ndocuments'', a), (''nembeddings'', b), (''nmetadatas'', c), (''nids'', d)] = Inl TypeError"
  by (simp add: Collection_add_def bind_add_misspelt)

lemma validate_ids_None: "validate_ids ids = None \<longleftrightarrow> ids \<noteq> [] \<and> distinct ids"
  by (simp add: validate_ids_def)

lemma name_syntax_examples:
  "name_syntax ''document_chunks''" "name_syntax ''archive''" "\<not> name_syntax ''ab''"
  by (simp_all add: name_syntax_def alphanumeric_def)

subsection \<open>Lemmas on the manager's calls\<close>

lemma add_chunks_never_returns:
  "add_chunks m chunks embeddings metadatas ids \<noteq> Inr m'"
  by (auto simp: add_chunks_def Collection_add_misspelt split: option.splits sum.splits)

lemma insert_entry_distinct:
  "distinct (map entry_id c) \<Longrightarrow> distinct (map entry_id (insert_entry e c))"
  by (simp add: insert_entry_def)

lemma fold_insert_entry_distinct:
  "distinct (map entry_id c) \<Longrightarrow> distinct (map entry_id (fold insert_entry es c))"
  by (induction es arbitrary: c) (simp_all add: insert_entry_distinct)

lemma add_records_distinct:
  "add_records c args = Inr c' \<Longrightarrow> distinct (map entry_id c) \<Longrightarrow> distinct (map entry_id c')"
  by (auto simp: add_records_def Let_def fold_insert_entry_distinct
      split: option.splits arg.splits if_splits)

subsection \<open>Lemmas on metadata updates\<close>

lemma merge_metadata_lookup:
  assumes "merge_metadata stored given = Some merged"
  shows "map_of merged
           = (case stored of None \<Rightarrow> map_of given | Some old \<Rightarrow> map_of old ++ map_of given)"
proof (cases stored)
  case None
  with assms show ?thesis by (auto simp: merge_metadata_def)
next
  case (Some old)
  have "map_of (filter (\<lambda>kv. fst kv \<notin> set (map fst given)) old @ given) k
          = (map_of old ++ map_of given) k" for k
  proof (cases "map_of given k")
    case None
    then have "k \<notin> set (map fst given)" by (simp add: map_of_eq_None_iff)
    then have "map_of (filter (\<lambda>kv. fst kv \<notin> set (map fst given)) old) k = map_of old k"
      by (induction old) auto
    with None show ?thesis by (simp add: map_add_def split: option.splits)
  next
    case (Some v)
    then have "k \<in> set (map fst given)" by (metis map_of_eq_None_iff option.distinct(1) list.set_map)
    then have "map_of (filter (\<lambda>kv. fst kv \<notin> set (map fst given)) old) k = None"
      by (induction old) (auto intro: rev_image_eqI)
    with Some show ?thesis by (force simp: map_add_def split: option.splits)
  qed
  then have "map_of (filter (\<lambda>kv. fst kv \<notin> set (map fst given)) old @ given)
          = map_of old ++ map_of given" by (rule ext)
  with Some assms show ?thesis by (auto simp: merge_metadata_def)
qed

lemma set_metadata_length: "length (set_metadata p c) = length c"
  by (simp add: set_metadata_def)

lemma set_metadata_nth:
  "k < length c \<Longrightarrow>
     set_metadata p c ! k =
       (if entry_id (c ! k) = fst p
        then (c ! k)\<lparr>metadata := merge_metadata (metadata (c ! k)) (snd p)\<rparr> else c ! k)"
  by (simp add: set_metadata_def)

lemma fold_set_metadata_length: "length (fold set_metadata ps c) = length c"
  by (induction ps arbitrary: c) (simp_all add: set_metadata_length)

lemma fold_set_metadata_fields:
  "k < length c \<Longrightarrow>
     entry_id (fold set_metadata ps c ! k) = entry_id (c ! k) \<and>
     document (fold set_metadata ps c ! k) = document (c ! k) \<and>
     embedding (fold set_metadata ps c ! k) = embedding (c ! k)"
  by (induction ps arbitrary: c) (simp_all add: set_metadata_length set_metadata_nth)

lemma fold_set_metadata_unlisted:
  "k < length c \<Longrightarrow> entry_id (c ! k) \<notin> fst ` set ps \<Longrightarrow> fold set_metadata ps c ! k = c ! k"
  by (induction ps arbitrary: c) (auto simp: set_metadata_length set_metadata_nth)

lemma fold_set_metadata_listed:
  "distinct (map fst ps) \<Longrightarrow> (entry_id (c ! k), md) \<in> set ps \<Longrightarrow> k < length c \<Longrightarrow>
     fold set_metadata ps c ! k = (c ! k)\<lparr>metadata := merge_metadata (metadata (c ! k)) md\<rparr>"
proof (induction ps arbitrary: c)
  case Nil
  then show ?case by simp
next
  case (Cons p ps)
  let ?c = "set_metadata p c"
  have len: "k < length ?c" using Cons.prems(3) by (simp add: set_metadata_length)
  show ?case
  proof (cases "p = (entry_id (c ! k), md)")
    case True
    with Cons.prems have "entry_id (c ! k) \<notin> fst ` set ps" by auto
    moreover have ck: "?c ! k = (c ! k)\<lparr>metadata := merge_metadata (metadata (c ! k)) md\<rparr>"
      using True Cons.prems(3) by (simp add: set_metadata_nth)
    ultimately have "fold set_metadata ps ?c ! k = ?c ! k"
      using len by (simp add: fold_set_metadata_unlisted)
    with ck show ?thesis by simp
  next
    case False
    with Cons.prems have in_rest: "(entry_id (c ! k), md) \<in> set ps" and d: "distinct (map fst ps)"
      by auto
    from in_rest Cons.prems(1) have "fst p \<noteq> entry_id (c ! k)" by force
    then have "?c ! k = c ! k" using Cons.prems(3) by (simp add: set_metadata_nth)
    with Cons.IH [of ?c] d in_rest len show ?thesis by simp
  qed
qed

subsection \<open>Lemmas on the persistence directory\<close>

lemma Path_mkdir_parent_present:
  "is_dir ds (butlast p) \<Longrightarrow>
     Path_mkdir ds p parents True = Inr (if is_dir ds p then ds else insert p ds)"
  by (subst Path_mkdir.simps) (simp add: os_mkdir_def)

lemma Path_mkdir_parents:
  "\<exists>ds'. Path_mkdir ds p True True = Inr ds' \<and> ds \<subseteq> ds' \<and> is_dir ds' p
      \<and> ds' \<subseteq> ds \<union> {take k p | k. k \<le> length p}
      \<and> (parents_exist ds \<longrightarrow> parents_exist ds')"
proof (induction p rule: rev_induct)
  case Nil
  show ?case by (auto simp: Path_mkdir_parent_present is_dir_def)
next
  case (snoc x xs)
  have pre: "take (Suc (length xs)) (xs @ [x]) = xs @ [x]" by simp
  show ?case
  proof (cases "is_dir ds xs")
    case True
    then show ?thesis
      by (auto simp: Path_mkdir_parent_present is_dir_def parents_exist_def
          intro: exI [of _ "Suc (length xs)"])
  next
    case False
    from snoc obtain ds1 where ds1: "Path_mkdir ds xs True True = Inr ds1" "ds \<subseteq> ds1"
      "is_dir ds1 xs" "ds1 \<subseteq> ds \<union> {take k xs | k. k \<le> length xs}"
      "parents_exist ds \<longrightarrow> parents_exist ds1"
      by blast
    have sub: "{take k xs | k. k \<le> length xs} \<subseteq> {take k (xs @ [x]) | k. k \<le> length (xs @ [x])}"
    proof
      fix q assume "q \<in> {take k xs | k. k \<le> length xs}"
      then obtain k where "q = take k xs" "k \<le> length xs" by blast
      then have "q = take k (xs @ [x])" "k \<le> length (xs @ [x])" by simp_all
      then show "q \<in> {take k (xs @ [x]) | k. k \<le> length (xs @ [x])}" by blast
    qed
    have self: "xs @ [x] \<in> {take k (xs @ [x]) | k. k \<le> length (xs @ [x])}"
      using pre by (intro CollectI exI [of _ "Suc (length xs)"]) simp
    show ?thesis
    proof (cases "is_dir ds (xs @ [x])")
      case True
      then show ?thesis
        by (subst Path_mkdir.simps) (auto simp: os_mkdir_def)
    next
      case notdir: False
      have step: "Path_mkdir ds (xs @ [x]) True True = Path_mkdir ds1 (xs @ [x]) False True"
        using False notdir ds1(1) by (subst Path_mkdir.simps) (simp add: os_mkdir_def)
      have res: "Path_mkdir ds1 (xs @ [x]) False True
              = Inr (if is_dir ds1 (xs @ [x]) then ds1 else insert (xs @ [x]) ds1)"
        using ds1(3) by (simp add: Path_mkdir_parent_present)
      let ?ds' = "if is_dir ds1 (xs @ [x]) then ds1 else insert (xs @ [x]) ds1"
      have 1: "ds \<subseteq> ?ds'" using ds1(2) by auto
      have 2: "is_dir ?ds' (xs @ [x])" by (auto simp: is_dir_def)
      have "ds1 \<subseteq> ds \<union> {take k (xs @ [x]) | k. k \<le> length (xs @ [x])}"
        using ds1(4) sub by blast
      moreover have "insert (xs @ [x]) ds1 \<subseteq> ds \<union> {take k (xs @ [x]) | k. k \<le> length (xs @ [x])}"
        using ds1(4) sub self by blast
      ultimately have 3: "?ds' \<subseteq> ds \<union> {take k (xs @ [x]) | k. k \<le> length (xs @ [x])}"
        by (cases "is_dir ds1 (xs @ [x])") (simp_all only: if_True if_False)
      have 4: "parents_exist ds \<longrightarrow> parents_exist ?ds'"
        using ds1(5) ds1(3) by (auto simp: parents_exist_def is_dir_def)
      from step res 1 2 3 4 show ?thesis by simp
    qed
  qed
qed

lemma PersistentClient_result:
  "PersistentClient stored [(''path'', PathArg p), (''settings'', s)] = Inr (stored p)"
  by (simp add: PersistentClient_def bind_arguments_def client_params_def)

lemma fold_insert_entry_fresh:
  "distinct (map entry_id es) \<Longrightarrow> set (map entry_id es) \<inter> set (map entry_id c) = {}
     \<Longrightarrow> fold insert_entry es c = c @ es"
proof (induction es arbitrary: c)
  case Nil
  then show ?case by simp
next
  case (Cons e es)
  from Cons.prems have "insert_entry e c = c @ [e]" by (auto simp: insert_entry_def)
  moreover from Cons.prems have "fold insert_entry es (c @ [e]) = (c @ [e]) @ es"
    by (intro Cons.IH) auto
  ultimately show ?case by simp
qed

lemma map_entry_id_make_entries:
  "length docs = length ids \<Longrightarrow> length embs = length ids \<Longrightarrow> length metas = length ids \<Longrightarrow>
     map entry_id (make_entries ids docs embs metas) = ids"
  by (simp add: make_entries_def comp_def case_prod_unfold map_fst_zip cong: map_cong)

subsection \<open>Lemmas on the library calls the manager makes\<close>

lemma get_or_create_collection_result:
  "get_or_create_collection valid db (collection_kwargs name)
     = (if valid name then Inr (if db name = None then db(name \<mapsto> []) else db, name)
        else Inl InvalidArgumentError)"
  by (auto simp: get_or_create_collection_def collection_kwargs_def bind_get_or_create)

lemma delete_chunks_result:
  "ids \<noteq> [] \<Longrightarrow> distinct ids \<Longrightarrow> client m (collection m) = Some c \<Longrightarrow>
     delete_chunks m ids
       = Inr (m\<lparr>client := (client m)(collection m \<mapsto> filter (\<lambda>e. entry_id e \<notin> set ids) c)\<rparr>)"
  by (simp add: delete_chunks_def Collection_delete_def bind_delete_ids validate_ids_def)

lemma delete_chunks_returns:
  assumes "delete_chunks m ids = Inr m'"
  shows "\<exists>c. client m (collection m) = Some c
           \<and> m' = m\<lparr>client := (client m)(collection m \<mapsto> filter (\<lambda>e. entry_id e \<notin> set ids) c)\<rparr>"
  using assms
  by (auto simp: delete_chunks_def Collection_delete_def bind_delete_ids
      split: option.splits)

lemma delete_chunks_refused:
  "delete_chunks m [] = Inl ValueError"
  "\<not> distinct ids \<Longrightarrow> delete_chunks m ids = Inl DuplicateIDError"
  by (auto simp: delete_chunks_def Collection_delete_def bind_delete_ids validate_ids_def)

lemma update_chunk_metadata_result:
  "ids \<noteq> [] \<Longrightarrow> distinct ids \<Longrightarrow> [] \<notin> set metadatas \<Longrightarrow> length metadatas = length ids \<Longrightarrow>
   client m (collection m) = Some c \<Longrightarrow>
     update_chunk_metadata m ids metadatas
       = Inr (m\<lparr>client := (client m)(collection m \<mapsto> fold set_metadata (zip ids metadatas) c)\<rparr>)"
  by (auto simp: update_chunk_metadata_def Collection_update_def bind_update_ids_metadatas
      validate_ids_def list_ex_iff)

lemma update_chunk_metadata_errors:
  "update_chunk_metadata m ids metadatas = Inl e \<Longrightarrow>
     e = ValueError \<or> e = DuplicateIDError \<or> e = CollectionDoesNotExist"
  by (auto simp: update_chunk_metadata_def Collection_update_def bind_update_ids_metadatas
      validate_ids_def split: option.splits if_splits)

lemma update_chunk_metadata_refused:
  "update_chunk_metadata m [] [] = Inl ValueError"
  "\<not> distinct ids \<Longrightarrow> update_chunk_metadata m ids metadatas = Inl DuplicateIDError"
  "ids \<noteq> [] \<Longrightarrow> distinct ids \<Longrightarrow> [] \<in> set metadatas \<Longrightarrow>
     update_chunk_metadata m ids metadatas = Inl ValueError"
  by (auto simp: update_chunk_metadata_def Collection_update_def bind_update_ids_metadatas
      validate_ids_def list_ex_iff)

lemma Collection_add_distinct:
  assumes "Collection_add db h kwargs = Inr db'" and "db h = Some c"
    and "distinct (map entry_id c)"
  shows "\<exists>c'. db' h = Some c' \<and> distinct (map entry_id c')"
  using assms
  by (auto simp: Collection_add_def split: sum.splits dest: add_records_distinct)

lemma add_chunks_distinct:
  assumes "add_chunks m chunks embeddings metadatas ids = Inr m'"
    and "distinct (map entry_id (current m))"
  shows "distinct (map entry_id (current m'))"
proof -
  from assms(1) obtain kwargs db' where
    add: "Collection_add (client m) (collection m) kwargs = Inr db'" and m': "m' = m\<lparr>client := db'\<rparr>"
    by (auto simp: add_chunks_def split: sum.splits option.splits)
  from add obtain c where c: "client m (collection m) = Some c"
    by (auto simp: Collection_add_def split: sum.splits option.splits)
  with assms(2) have "distinct (map entry_id c)" by (simp add: current_def)
  from Collection_add_distinct [OF add c this] m' show ?thesis
    by (auto simp: current_def)
qed

lemma delete_chunks_distinct:
  assumes "delete_chunks m ids = Inr m'" and "distinct (map entry_id (current m))"
  shows "distinct (map entry_id (current m'))"
  using delete_chunks_returns [OF assms(1)] assms(2)
  by (auto simp: current_def distinct_map_filter)

lemma apply_operation_distinct:
  "apply_operation m operation = Inr m' \<Longrightarrow> distinct (map entry_id (current m))
     \<Longrightarrow> distinct (map entry_id (current m'))"
  by (cases operation) (auto simp: apply_operation_def dest: add_chunks_distinct delete_chunks_distinct)

text \<open>
  Called with the keywords its interface declares, \<^verbatim>\<open>Collection.add\<close> of the model stores
  the records: fresh, distinct ids are appended in order.
\<close>

lemma Collection_add_documented_keywords:
  assumes "db h = Some c" and "length chunks = length ids" and "length embeddings = length ids"
    and "ids \<noteq> []" and "distinct ids" and "set ids \<inter> set (map entry_id c) = {}"
  shows "Collection_add db h
           [(''documents'', StrList chunks), (''embeddings'', EmbList embeddings),
            (''metadatas'', NoneArg), (''ids'', StrList ids)]
         = Inr (db(h \<mapsto> c @ make_entries ids chunks embeddings (replicate (length ids) None)))"
proof -
  let ?es = "make_entries ids chunks embeddings (replicate (length ids) None)"
  have ids: "map entry_id ?es = ids"
    using assms(2,3) by (simp add: map_entry_id_make_entries)
  have "distinct (map entry_id ?es)" using assms(5) by (simp only: ids)
  moreover have "set (map entry_id ?es) \<inter> set (map entry_id c) = {}"
    using assms(6) by (simp only: ids)
  ultimately have "fold insert_entry ?es c = c @ ?es"
    by (rule fold_insert_entry_fresh)
  with assms(1,2,3,4,5) show ?thesis
    by (simp add: Collection_add_def bind_arguments_def add_params_def add_records_def
        validate_ids_def)
qed

text \<open>
  An id anchored to the size can be taken: in a collection whose only record is
  \<^verbatim>\<open>chunk_1\<close> (what is left of two records after \<^verbatim>\<open>chunk_0\<close> was deleted) the next
  generated id is \<^verbatim>\<open>chunk_1\<close> again, and \<^verbatim>\<open>Collection.add\<close>, called with the keywords its
  interface declares, skips the record.
\<close>

lemma size_anchored_id_taken_example:
  "map (\<lambda>i. ''chunk_'' @ format_int (length [e] + i)) [0..<length [''new chunk'']] = [''chunk_1'']"
  "entry_id e = ''chunk_1'' \<Longrightarrow>
     Collection_add [h \<mapsto> [e]] h
       [(''documents'', StrList [''new chunk'']), (''embeddings'', EmbList [v]),
        (''metadatas'', NoneArg), (''ids'', StrList [''chunk_1''])]
     = Inr [h \<mapsto> [e]]"
  by (simp_all add: format_int.simps digit_def Collection_add_def bind_arguments_def
      add_params_def add_records_def make_entries_def insert_entry_def validate_ids_def)

lemma fold_set_metadata_none_listed:
  assumes "fst ` set ps \<inter> set (map entry_id c) = {}"
  shows "fold set_metadata ps c = c"
proof (rule nth_equalityI)
  show "length (fold set_metadata ps c) = length c" by (rule fold_set_metadata_length)
next
  fix k assume "k < length (fold set_metadata ps c)"
  then have k: "k < length c" by (simp add: fold_set_metadata_length)
  then have "entry_id (c ! k) \<in> set (map entry_id c)" by simp
  with assms have "entry_id (c ! k) \<notin> fst ` set ps" by blast
  with k show "fold set_metadata ps c ! k = c ! k" by (rule fold_set_metadata_unlisted)
qed

lemma init_manager:
  "init valid ds stored persist_dir name = (ds', Inr m) \<Longrightarrow>
     attached m \<and> valid (collection_name m) \<and> collection_name m = name"
  by (auto simp: init_def PersistentClient_result get_or_create_collection_result attached_def
      split: sum.splits if_splits)

lemma init_refused:
  "\<not> valid name \<Longrightarrow> snd (init valid ds stored persist_dir name) = Inl InvalidArgumentError"
  using Path_mkdir_parents [of ds persist_dir]
  by (auto simp: init_def PersistentClient_result get_or_create_collection_result)

text \<open>
  The name \<^verbatim>\<open>ab\<close> is too short for the library: switching to it raises and leaves the new
  name in \<^verbatim>\<open>collection_name\<close> beside the old handle, and constructing a manager for it
  raises after the directory was made.
\<close>

lemma switch_collection_refused_example:
  "switch_collection name_syntax
      \<lparr>persist_directory = [''chroma_db''], collection_name = ''document_chunks'',
       client = [''document_chunks'' \<mapsto> ([] :: (int list, string) entry list)],
       collection = ''document_chunks''\<rparr> ''ab''
   = Inl (InvalidArgumentError,
      \<lparr>persist_directory = [''chroma_db''], collection_name = ''ab'',
       client = [''document_chunks'' \<mapsto> []], collection = ''document_chunks''\<rparr>)"
  by (simp add: switch_collection_def get_or_create_collection_result name_syntax_examples)

lemma init_refused_example:
  "snd (init name_syntax {} (\<lambda>p. Map.empty) [''chroma_db''] ''ab'')
     = (Inl InvalidArgumentError :: error + (int list, string) manager)"
  by (simp add: init_refused name_syntax_examples)

subsection \<open>C1: add without ids\<close>

text \<open>
  Claim C1. A call of \<^verbatim>\<open>add_chunks\<close> without ids on a collection of size \<open>n\<close> stores the
  chunks under the ids \<^verbatim>\<open>chunk_n\<close>, ..., \<^verbatim>\<open>chunk_(n+len(chunks)-1)\<close>, and the size grows
  by \<^verbatim>\<open>len(chunks)\<close>.

  The method computes these ids and then calls \<^verbatim>\<open>self.collection.add\<close> with the keywords
  \<^verbatim>\<open>ndocuments\<close>, \<^verbatim>\<open>nembeddings\<close>, \<^verbatim>\<open>nmetadatas\<close> and \<^verbatim>\<open>nids\<close>. None of them is a
  parameter of \<^verbatim>\<open>Collection.add\<close>, so the call raises \<^verbatim>\<open>TypeError\<close> before the library
  stores anything: on every manager built by the constructor, \<^verbatim>\<open>add_chunks\<close> without ids
  raises and the collection stays as it was.
\<close>

theorem add_chunks_without_ids_raises:
  "attached m \<Longrightarrow> add_chunks m chunks embeddings metadatas None = Inl TypeError"
  by (auto simp: add_chunks_def attached_def Collection_count_def Collection_add_misspelt
      split: option.splits)

theorem add_chunks_without_ids_raises_witness:
  "add_chunks
     \<lparr>persist_directory = [''chroma_db''], collection_name = ''document_chunks'',
      client = [''document_chunks'' \<mapsto> []], collection = ''document_chunks''\<rparr>
     [''first chunk'', ''second chunk''] [[1 :: int, 0], [0, 1]]
     (None :: (string \<times> string) list list option) None
   = Inl TypeError"
  using add_chunks_without_ids_raises
    [of "\<lparr>persist_directory = [''chroma_db''], collection_name = ''document_chunks'',
      client = [''document_chunks'' \<mapsto> []], collection = ''document_chunks''\<rparr>"]
  by (simp add: attached_def)

subsection \<open>C3: what the chunkers return\<close>

text \<open>
  Claim C3. For a document with non-empty text, chunking under either strategy returns a
  non-empty sequence of chunks, and degrades to the whole document as one chunk when the
  document cannot be segmented.

  The only chunking method of the source is \<^verbatim>\<open>cunk_document\<close>, inherited by both
  strategies, with the body \<^verbatim>\<open>pass\<close>. What holds instead: called without arguments it
  returns \<^verbatim>\<open>None\<close>; called with a document it raises \<^verbatim>\<open>TypeError\<close>; it never returns a
  sequence of chunks and never signals a chunking error.
\<close>

theorem cunk_document_returns_no_chunks:
  "(cunk_document self [] :: error + 'c returned) = Inr NoneValue
   \<and> (args \<noteq> [] \<longrightarrow> (cunk_document self args :: error + 'c returned) = Inl TypeError)
   \<and> cunk_document self args \<noteq> Inr (Sequence (chunks :: 'c list))
   \<and> (cunk_document self args :: error + 'c returned) \<noteq> Inl ChunkingError"
  by (simp add: cunk_document_def)

theorem cunk_document_returns_no_chunks_witness:
  "(cunk_document \<lparr>chunker_class = ContextAwareChunking,
        model = \<lparr>model_name = ''all-MiniLM-L6-v2'', token_vectors = True\<rparr>\<rparr>
      [''Paris is the capital of France.''] :: error + string returned) = Inl TypeError"
  using cunk_document_returns_no_chunks
    [of "\<lparr>chunker_class = ContextAwareChunking,
        model = \<lparr>model_name = ''all-MiniLM-L6-v2'', token_vectors = True\<rparr>\<rparr>"
      "[''Paris is the capital of France.'']", where ?'c = string]
  by simp

theorem cunk_document_counterexample:
  "(cunk_document \<lparr>chunker_class = LateChunking,
        model = \<lparr>model_name = ''all-MiniLM-L6-v2'', token_vectors = True\<rparr>\<rparr>
      [''The sky is blue.''] :: error + string returned) = Inl TypeError
   \<and> (cunk_document \<lparr>chunker_class = LateChunking,
        model = \<lparr>model_name = ''all-MiniLM-L6-v2'', token_vectors = True\<rparr>\<rparr>
      [] :: error + string returned) = Inr NoneValue
   \<and> (cunk_document \<lparr>chunker_class = ContextAwareChunking,
        model = \<lparr>model_name = ''all-MiniLM-L6-v2'', token_vectors = True\<rparr>\<rparr>
      [''The sky is blue.''] :: error + string returned) = Inl TypeError
   \<and> (cunk_document \<lparr>chunker_class = ContextAwareChunking,
        model = \<lparr>model_name = ''all-MiniLM-L6-v2'', token_vectors = True\<rparr>\<rparr>
      [] :: error + string returned) = Inr NoneValue"
  by (simp add: cunk_document_def)

subsection \<open>C4: reset, then add\<close>

text \<open>
  Claim C4. After \<^verbatim>\<open>reset_collection\<close> the count is 0, a following \<^verbatim>\<open>add_chunks\<close> succeeds,
  and without ids its first id is \<^verbatim>\<open>chunk_0\<close>.

  The first part holds on every manager built by the constructor, whose name the library has
  accepted: the collection is deleted and created again, empty. The second does not:
  \<^verbatim>\<open>add_chunks\<close> on the reset collection raises \<^verbatim>\<open>TypeError\<close>, for the misspelt keywords of
  claim C1. (With a name the library refuses, the reset itself raises after the collection
  was deleted.)
\<close>

theorem reset_collection_then_add_raises:
  "attached m \<Longrightarrow>
     (valid (collection_name m) \<longrightarrow>
        (\<exists>m'. reset_collection valid m = Inr m' \<and> attached m' \<and> count_chunks m' = Inr 0
           \<and> add_chunks m' chunks embeddings metadatas None = Inl TypeError))
   \<and> (\<not> valid (collection_name m) \<longrightarrow>
        reset_collection valid m
          = Inl (InvalidArgumentError, m\<lparr>client := (client m)(collection_name m := None)\<rparr>))"
  by (auto simp: reset_collection_def delete_collection_def get_or_create_collection_result
      attached_def count_chunks_def Collection_count_def add_chunks_def Collection_add_misspelt
      split: option.splits)

theorem reset_collection_then_add_raises_witness:
  "\<exists>m'. reset_collection name_syntax
           \<lparr>persist_directory = [''chroma_db''], collection_name = ''document_chunks'',
            client = [''document_chunks'' \<mapsto>
              [\<lparr>entry_id = ''chunk_0'', document = ''old chunk'', embedding = [1 :: int, 0],
                metadata = (None :: (string \<times> string) list option)\<rparr>]],
            collection = ''document_chunks''\<rparr> = Inr m'
      \<and> count_chunks m' = Inr 0
      \<and> add_chunks m' [''new chunk''] [[0, 1]] None None = Inl TypeError"
  using reset_collection_then_add_raises
    [of "\<lparr>persist_directory = [''chroma_db''], collection_name = ''document_chunks'',
            client = [''document_chunks'' \<mapsto>
              [\<lparr>entry_id = ''chunk_0'', document = ''old chunk'', embedding = [1 :: int, 0],
                metadata = (None :: (string \<times> string) list option)\<rparr>]],
            collection = ''document_chunks''\<rparr>" name_syntax "[''new chunk'']" "[[0, 1]]" None]
    name_syntax_examples(1)
  by (auto simp: attached_def)

subsection \<open>C5: ids are unique within a collection\<close>

text \<open>
  Claim C5. Whatever sequence of \<^verbatim>\<open>add_chunks\<close> calls without ids and \<^verbatim>\<open>delete_chunks\<close>
  calls is made, no two records of the collection carry the same id.

  Stated on the collection the manager points at: when its ids are distinct before the
  calls, they are distinct after them. The proof rests on the library, which skips a record
  whose id is stored already (\<open>Collection_add_distinct\<close> holds for every keyword list), and
  on deletion only removing records.
\<close>

theorem ids_unique_after_operations:
  "distinct (map entry_id (current m)) \<Longrightarrow>
     distinct (map entry_id (current (run_operations m operations)))"
proof (induction operations arbitrary: m)
  case Nil
  then show ?case by simp
next
  case (Cons operation rest)
  show ?case
  proof (cases "apply_operation m operation")
    case (Inl e)
    with Cons show ?thesis by simp
  next
    case (Inr m')
    from apply_operation_distinct [OF Inr Cons.prems]
    have "distinct (map entry_id (current m'))" .
    with Cons.IH Inr show ?thesis by simp
  qed
qed

theorem ids_unique_after_operations_witness:
  "distinct (map entry_id (current (run_operations
     \<lparr>persist_directory = [''chroma_db''], collection_name = ''document_chunks'',
      client = [''document_chunks'' \<mapsto>
        [\<lparr>entry_id = ''chunk_0'', document = ''a'', embedding = [1 :: int, 0],
          metadata = (None :: (string \<times> string) list option)\<rparr>,
         \<lparr>entry_id = ''chunk_1'', document = ''b'', embedding = [0, 1], metadata = None\<rparr>]],
      collection = ''document_chunks''\<rparr>
     [Delete [''chunk_0''], Add [''c''] [[1, 1]] None])))"
  using ids_unique_after_operations
    [of "\<lparr>persist_directory = [''chroma_db''], collection_name = ''document_chunks'',
      client = [''document_chunks'' \<mapsto>
        [\<lparr>entry_id = ''chunk_0'', document = ''a'', embedding = [1 :: int, 0],
          metadata = (None :: (string \<times> string) list option)\<rparr>,
         \<lparr>entry_id = ''chunk_1'', document = ''b'', embedding = [0, 1], metadata = None\<rparr>]],
      collection = ''document_chunks''\<rparr>"
     "[Delete [''chunk_0''], Add [''c''] [[1, 1]] None]"]
  by (simp add: current_def)

subsection \<open>C6: updating the metadata of ids that are not stored\<close>

text \<open>
  Claim C6. \<^verbatim>\<open>update_chunk_metadata\<close> signals \<^verbatim>\<open>NotFoundError\<close> when one of the ids is
  not in the collection, and replaces the metadata of the ids that are.

  The method passes both lists on to \<^verbatim>\<open>Collection.update\<close> and checks nothing. What holds
  instead, on a manager built by the constructor: it does not signal \<^verbatim>\<open>NotFoundError\<close>;
  and in a call the library accepts (a non-empty list of distinct ids, and for every id one
  metadata dictionary that is not empty) it returns whether or not the ids are stored. An id
  that is not stored is skipped; a record whose id is not listed is unchanged; a stored
  record that is listed keeps its id, text and embedding and gets the given keys merged into
  its metadata. When none of the ids is stored the manager is the one before the call. No
  other collection changes.
\<close>

theorem update_chunk_metadata_skips_unknown_ids:
  "(attached m \<longrightarrow> update_chunk_metadata m ids metadatas \<noteq> Inl NotFoundError) \<and>
   (attached m \<and> ids \<noteq> [] \<and> distinct ids \<and> length metadatas = length ids \<and> [] \<notin> set metadatas \<longrightarrow>
     (\<exists>m'. update_chunk_metadata m ids metadatas = Inr m' \<and> attached m'
        \<and> length (current m') = length (current m)
        \<and> (\<forall>k < length (current m).
              (entry_id (current m ! k) \<notin> set ids \<longrightarrow> current m' ! k = current m ! k)
            \<and> (\<forall>j < length ids.
                  entry_id (current m ! k) = ids ! j \<longrightarrow>
                  current m' ! k
                    = (current m ! k)\<lparr>metadata :=
                         merge_metadata (metadata (current m ! k)) (metadatas ! j)\<rparr>))
        \<and> (set ids \<inter> set (map entry_id (current m)) = {} \<longrightarrow> m' = m)
        \<and> (\<forall>other. other \<noteq> collection m \<longrightarrow> client m' other = client m other)))"
proof (intro conjI impI)
  show "update_chunk_metadata m ids metadatas \<noteq> Inl NotFoundError"
    using update_chunk_metadata_errors [of m ids metadatas NotFoundError] by auto
next
  assume "attached m \<and> ids \<noteq> [] \<and> distinct ids \<and> length metadatas = length ids
            \<and> [] \<notin> set metadatas"
  then have att: "attached m" and ne: "ids \<noteq> []" and dist: "distinct ids"
    and len: "length metadatas = length ids" and full: "[] \<notin> set metadatas"
    by simp_all
  from att obtain c where c: "client m (collection m) = Some c"
    by (auto simp: attached_def)
  let ?ps = "zip ids metadatas"
  let ?c' = "fold set_metadata ?ps c"
  let ?m' = "m\<lparr>client := (client m)(collection m \<mapsto> ?c')\<rparr>"
  have cur: "current m = c" "current ?m' = ?c'" using c by (simp_all add: current_def)
  have map_fst: "map fst ?ps = ids" using len by (simp add: map_fst_zip)
  then have fst_ps: "fst ` set ?ps = set ids" by (metis list.set_map)
  have 1: "update_chunk_metadata m ids metadatas = Inr ?m'"
    using ne dist full len c by (rule update_chunk_metadata_result)
  have 2: "attached ?m'" using att by (simp add: attached_def)
  have 3: "length (current ?m') = length (current m)"
    by (simp add: cur fold_set_metadata_length)
  have 4: "current ?m' ! k = current m ! k"
    if "k < length (current m)" "entry_id (current m ! k) \<notin> set ids" for k
    using that by (simp add: cur fst_ps fold_set_metadata_unlisted)
  have 5: "current ?m' ! k
             = (current m ! k)\<lparr>metadata :=
                  merge_metadata (metadata (current m ! k)) (metadatas ! j)\<rparr>"
    if "k < length (current m)" "j < length ids" "entry_id (current m ! k) = ids ! j" for k j
  proof -
    from that(2) len have "(ids ! j, metadatas ! j) \<in> set ?ps"
      by (auto simp: set_zip)
    with that(3) have "(entry_id (c ! k), metadatas ! j) \<in> set ?ps" by (simp add: cur)
    moreover have "distinct (map fst ?ps)" using dist map_fst by simp
    ultimately show ?thesis using that(1) by (simp add: cur fold_set_metadata_listed)
  qed
  have 6: "?m' = m" if "set ids \<inter> set (map entry_id (current m)) = {}"
  proof -
    from that have "fst ` set ?ps \<inter> set (map entry_id c) = {}" by (simp add: cur fst_ps)
    then have "?c' = c" by (rule fold_set_metadata_none_listed)
    with c show ?thesis by (simp add: map_upd_triv)
  qed
  have 7: "\<forall>other. other \<noteq> collection m \<longrightarrow> client ?m' other = client m other" by simp
  show "\<exists>m'. update_chunk_metadata m ids metadatas = Inr m' \<and> attached m'
        \<and> length (current m') = length (current m)
        \<and> (\<forall>k < length (current m).
              (entry_id (current m ! k) \<notin> set ids \<longrightarrow> current m' ! k = current m ! k)
            \<and> (\<forall>j < length ids.
                  entry_id (current m ! k) = ids ! j \<longrightarrow>
                  current m' ! k
                    = (current m ! k)\<lparr>metadata :=
                         merge_metadata (metadata (current m ! k)) (metadatas ! j)\<rparr>))
        \<and> (set ids \<inter> set (map entry_id (current m)) = {} \<longrightarrow> m' = m)
        \<and> (\<forall>other. other \<noteq> collection m \<longrightarrow> client m' other = client m other)"
    using 1 2 3 4 5 6 7 by (intro exI [of _ ?m']) blast
qed

theorem update_chunk_metadata_skips_unknown_ids_witness:
  "\<exists>m'. update_chunk_metadata
      \<lparr>persist_directory = [''chroma_db''], collection_name = ''document_chunks'',
       client = [''document_chunks'' \<mapsto>
         [\<lparr>entry_id = ''chunk_0'', document = ''a'', embedding = [1 :: int, 0],
           metadata = Some [(''source'', ''a.txt'')]\<rparr>,
          \<lparr>entry_id = ''chunk_1'', document = ''b'', embedding = [0, 1], metadata = None\<rparr>]],
       collection = ''document_chunks''\<rparr>
      [''chunk_9'', ''chunk_0''] [[(''source'', ''b.txt'')], [(''page'', ''2'')]] = Inr m'
    \<and> current m' ! 0 = \<lparr>entry_id = ''chunk_0'', document = ''a'', embedding = [1, 0],
                          metadata = Some [(''source'', ''a.txt''), (''page'', ''2'')]\<rparr>
    \<and> current m' ! 1 = \<lparr>entry_id = ''chunk_1'', document = ''b'', embedding = [0, 1],
                          metadata = None\<rparr>
    \<and> length (current m') = 2"
proof -
  let ?m = "\<lparr>persist_directory = [''chroma_db''], collection_name = ''document_chunks'',
       client = [''document_chunks'' \<mapsto>
         [\<lparr>entry_id = ''chunk_0'', document = ''a'', embedding = [1 :: int, 0],
           metadata = Some [(''source'', ''a.txt'')]\<rparr>,
          \<lparr>entry_id = ''chunk_1'', document = ''b'', embedding = [0, 1], metadata = None\<rparr>]],
       collection = ''document_chunks''\<rparr>"
  let ?ids = "[''chunk_9'', ''chunk_0'']"
  let ?metas = "[[(''source'', ''b.txt'')], [(''page'', ''2'')]]"
  have pre: "attached ?m \<and> ?ids \<noteq> [] \<and> distinct ?ids \<and> length ?metas = length ?ids
               \<and> [] \<notin> set ?metas"
    by (simp add: attached_def)
  have cur: "current ?m =
         [\<lparr>entry_id = ''chunk_0'', document = ''a'', embedding = [1 :: int, 0],
           metadata = Some [(''source'', ''a.txt'')]\<rparr>,
          \<lparr>entry_id = ''chunk_1'', document = ''b'', embedding = [0, 1], metadata = None\<rparr>]"
    by (simp add: current_def)
  from update_chunk_metadata_skips_unknown_ids [of ?m ?ids ?metas] pre
  obtain m' where m': "update_chunk_metadata ?m ?ids ?metas = Inr m'"
    and len: "length (current m') = length (current ?m)"
    and all: "\<forall>k < length (current ?m).
              (entry_id (current ?m ! k) \<notin> set ?ids \<longrightarrow> current m' ! k = current ?m ! k)
            \<and> (\<forall>j < length ?ids.
                  entry_id (current ?m ! k) = ?ids ! j \<longrightarrow>
                  current m' ! k
                    = (current ?m ! k)\<lparr>metadata :=
                         merge_metadata (metadata (current ?m ! k)) (?metas ! j)\<rparr>)"
    by blast
  have lt: "0 < length (current ?m)" "1 < length (current ?m)" by (simp_all add: cur)
  have listed: "1 < length ?ids" "entry_id (current ?m ! 0) = ?ids ! 1" by (simp_all add: cur)
  from all lt(1) listed
  have "current m' ! 0
          = (current ?m ! 0)\<lparr>metadata := merge_metadata (metadata (current ?m ! 0)) (?metas ! 1)\<rparr>"
    by blast
  then have 0: "current m' ! 0 = \<lparr>entry_id = ''chunk_0'', document = ''a'', embedding = [1, 0],
                          metadata = Some [(''source'', ''a.txt''), (''page'', ''2'')]\<rparr>"
    by (simp add: cur merge_metadata_def)
  have unlisted: "entry_id (current ?m ! 1) \<notin> set ?ids" by (simp add: cur)
  from all lt(2) unlisted have "current m' ! 1 = current ?m ! 1" by blast
  then have 1: "current m' ! 1 = \<lparr>entry_id = ''chunk_1'', document = ''b'', embedding = [0, 1],
                          metadata = None\<rparr>"
    by (simp add: cur)
  from m' 0 1 len show ?thesis by (simp add: cur)
qed

theorem update_chunk_metadata_counterexample:
  "''chunk_9'' \<notin> set (map entry_id (current
      \<lparr>persist_directory = [''chroma_db''], collection_name = ''document_chunks'',
       client = [''document_chunks'' \<mapsto>
         [\<lparr>entry_id = ''chunk_0'', document = ''a'', embedding = [1 :: int, 0],
           metadata = Some [(''source'', ''a.txt'')]\<rparr>]],
       collection = ''document_chunks''\<rparr>))
   \<and> update_chunk_metadata
      \<lparr>persist_directory = [''chroma_db''], collection_name = ''document_chunks'',
       client = [''document_chunks'' \<mapsto>
         [\<lparr>entry_id = ''chunk_0'', document = ''a'', embedding = [1 :: int, 0],
           metadata = Some [(''source'', ''a.txt'')]\<rparr>]],
       collection = ''document_chunks''\<rparr>
      [''chunk_9''] [[(''source'', ''b.txt'')]]
    = Inr
      \<lparr>persist_directory = [''chroma_db''], collection_name = ''document_chunks'',
       client = [''document_chunks'' \<mapsto>
         [\<lparr>entry_id = ''chunk_0'', document = ''a'', embedding = [1 :: int, 0],
           metadata = Some [(''source'', ''a.txt'')]\<rparr>]],
       collection = ''document_chunks''\<rparr>
   \<and> update_chunk_metadata
      \<lparr>persist_directory = [''chroma_db''], collection_name = ''document_chunks'',
       client = [''document_chunks'' \<mapsto>
         [\<lparr>entry_id = ''chunk_0'', document = ''a'', embedding = [1 :: int, 0],
           metadata = Some [(''source'', ''a.txt'')]\<rparr>]],
       collection = ''document_chunks''\<rparr>
      [''chunk_0''] [[(''page'', ''2'')]]
    = Inr
      \<lparr>persist_directory = [''chroma_db''], collection_name = ''document_chunks'',
       client = [''document_chunks'' \<mapsto>
         [\<lparr>entry_id = ''chunk_0'', document = ''a'', embedding = [1 :: int, 0],
           metadata = Some [(''source'', ''a.txt''), (''page'', ''2'')]\<rparr>]],
       collection = ''document_chunks''\<rparr>"
  by (simp add: current_def update_chunk_metadata_def Collection_update_def
      bind_update_ids_metadatas set_metadata_def validate_ids_def merge_metadata_def)

subsection \<open>C7: deleting is idempotent\<close>

text \<open>
  Claim C7. For every list of ids, also ids deleted before or never stored,
  \<^verbatim>\<open>delete_chunks\<close> does not raise, and deleting ids that are not stored leaves the count
  unchanged.

  The library refuses an empty list (\<^verbatim>\<open>ValueError\<close>) and a list with a repeated id
  (\<^verbatim>\<open>DuplicateIDError\<close>). What holds instead, on a manager built by the constructor and for
  every non-empty list of distinct ids: the call returns; the records left are those whose
  id is not listed, so an id that is not stored has no effect, also beside ids that are;
  deleting the same ids once more changes nothing; when none of the ids is stored the
  manager, and so the count, is the one before the call. No other collection changes.
\<close>

theorem delete_chunks_idempotent:
  "attached m \<Longrightarrow> ids \<noteq> [] \<Longrightarrow> distinct ids \<Longrightarrow>
     \<exists>m'. delete_chunks m ids = Inr m' \<and> attached m'
        \<and> current m' = filter (\<lambda>e. entry_id e \<notin> set ids) (current m)
        \<and> delete_chunks m' ids = Inr m'
        \<and> (set ids \<inter> set (map entry_id (current m)) = {}
             \<longrightarrow> m' = m \<and> count_chunks m' = count_chunks m)
        \<and> (\<forall>other. other \<noteq> collection m \<longrightarrow> client m' other = client m other)"
proof -
  assume att: "attached m" and ne: "ids \<noteq> []" and dist: "distinct ids"
  then obtain c where c: "client m (collection m) = Some c"
    by (auto simp: attached_def)
  let ?c' = "filter (\<lambda>e. entry_id e \<notin> set ids) c"
  let ?m' = "m\<lparr>client := (client m)(collection m \<mapsto> ?c')\<rparr>"
  have 1: "delete_chunks m ids = Inr ?m'" using ne dist c by (rule delete_chunks_result)
  have 2: "attached ?m'" using att by (simp add: attached_def)
  have 3: "current ?m' = filter (\<lambda>e. entry_id e \<notin> set ids) (current m)"
    using c by (simp add: current_def)
  have "client ?m' (collection ?m') = Some ?c'" by simp
  from delete_chunks_result [OF ne dist this]
  have 4: "delete_chunks ?m' ids = Inr ?m'" by simp
  have 5: "?m' = m" if "set ids \<inter> set (map entry_id (current m)) = {}"
  proof -
    from that c have "?c' = c" by (auto simp: current_def filter_id_conv)
    with c show ?thesis by (simp add: map_upd_triv)
  qed
  have 6: "\<forall>other. other \<noteq> collection m \<longrightarrow> client ?m' other = client m other" by simp
  from 1 2 3 4 5 6 show ?thesis by (intro exI [of _ ?m']) auto
qed

theorem delete_chunks_idempotent_witness:
  "\<exists>m'. delete_chunks
      \<lparr>persist_directory = [''chroma_db''], collection_name = ''document_chunks'',
       client = [''document_chunks'' \<mapsto>
         [\<lparr>entry_id = ''chunk_0'', document = ''a'', embedding = [1 :: int, 0],
           metadata = (None :: (string \<times> string) list option)\<rparr>,
          \<lparr>entry_id = ''chunk_1'', document = ''b'', embedding = [0, 1], metadata = None\<rparr>]],
       collection = ''document_chunks''\<rparr>
      [''chunk_7'', ''chunk_0''] = Inr m'
    \<and> current m' = [\<lparr>entry_id = ''chunk_1'', document = ''b'', embedding = [0, 1],
                       metadata = None\<rparr>]
    \<and> delete_chunks m' [''chunk_7'', ''chunk_0''] = Inr m'"
  using delete_chunks_idempotent
    [of "\<lparr>persist_directory = [''chroma_db''], collection_name = ''document_chunks'',
       client = [''document_chunks'' \<mapsto>
         [\<lparr>entry_id = ''chunk_0'', document = ''a'', embedding = [1 :: int, 0],
           metadata = (None :: (string \<times> string) list option)\<rparr>,
          \<lparr>entry_id = ''chunk_1'', document = ''b'', embedding = [0, 1], metadata = None\<rparr>]],
       collection = ''document_chunks''\<rparr>" "[''chunk_7'', ''chunk_0'']"]
  by (auto simp: attached_def current_def)

theorem delete_chunks_counterexample:
  "delete_chunks
      \<lparr>persist_directory = [''chroma_db''], collection_name = ''document_chunks'',
       client = [''document_chunks'' \<mapsto>
         [\<lparr>entry_id = ''chunk_0'', document = ''a'', embedding = [1 :: int, 0],
           metadata = (None :: (string \<times> string) list option)\<rparr>]],
       collection = ''document_chunks''\<rparr>
      [] = Inl ValueError
   \<and> delete_chunks
      \<lparr>persist_directory = [''chroma_db''], collection_name = ''document_chunks'',
       client = [''document_chunks'' \<mapsto>
         [\<lparr>entry_id = ''chunk_0'', document = ''a'', embedding = [1 :: int, 0],
           metadata = (None :: (string \<times> string) list option)\<rparr>]],
       collection = ''document_chunks''\<rparr>
      [''chunk_7'', ''chunk_7''] = Inl DuplicateIDError"
  by (simp add: delete_chunks_def Collection_delete_def bind_delete_ids validate_ids_def)

subsection \<open>C8: constructing the late chunker\<close>

text \<open>
  Claim C8. When the embedder exposes no per-unit vectors, constructing the late chunking
  strategy signals \<^verbatim>\<open>CapabilityError\<close>.

  The constructor of \<^verbatim>\<open>LateChunking\<close> calls the constructor of \<^verbatim>\<open>BaseChunker\<close> and
  nothing else. What holds instead: it returns a late chunker holding the loaded model
  whenever loading the model returns one, whatever the model exposes, and it raises exactly
  the error that loading raises.
\<close>

theorem LateChunking_init_checks_no_capability:
  "(SentenceTransformer name = Inr mdl \<longrightarrow>
      LateChunking_init SentenceTransformer name = Inr \<lparr>chunker_class = LateChunking, model = mdl\<rparr>)
   \<and> (SentenceTransformer name = Inl e \<longrightarrow> LateChunking_init SentenceTransformer name = Inl e)"
  by (simp add: LateChunking_init_def BaseChunker_init_def)

theorem LateChunking_init_checks_no_capability_witness:
  "LateChunking_init pooled_only ''all-mpnet-base-v2''
     = Inr \<lparr>chunker_class = LateChunking,
            model = \<lparr>model_name = ''all-mpnet-base-v2'', token_vectors = False\<rparr>\<rparr>"
  using LateChunking_init_checks_no_capability
    [of pooled_only "''all-mpnet-base-v2''"
      "\<lparr>model_name = ''all-mpnet-base-v2'', token_vectors = False\<rparr>"]
  by (simp add: pooled_only_def)

theorem LateChunking_init_counterexample:
  "token_vectors \<lparr>model_name = ''all-MiniLM-L6-v2'', token_vectors = False\<rparr> = False
   \<and> pooled_only ''all-MiniLM-L6-v2''
        = Inr \<lparr>model_name = ''all-MiniLM-L6-v2'', token_vectors = False\<rparr>
   \<and> LateChunking_init pooled_only ''all-MiniLM-L6-v2''
        = Inr \<lparr>chunker_class = LateChunking,
               model = \<lparr>model_name = ''all-MiniLM-L6-v2'', token_vectors = False\<rparr>\<rparr>"
  by (simp add: LateChunking_init_def BaseChunker_init_def pooled_only_def)

subsection \<open>C9: switching the collection\<close>



subsection \<open>C10: the constructor\<close>



end
